theory Spec2Isabelle
  imports Complex_Main
begin

section \<open>The class VanillaLocalVolModel\<close>

text \<open>
  The header \<^verbatim>\<open>ql/experimental/vanillalocalvolmodel/vanillalocalvolmodel.hpp\<close>
  declares the class. Its private data members become the fields of a record, in
  the order of the declaration. A C++ member \<^verbatim>\<open>x_\<close> is the field \<open>x_m\<close>
  (a name may not end with an underscore here). \<^verbatim>\<open>Real\<close> and \<^verbatim>\<open>Time\<close> are
  read as real numbers, \<^verbatim>\<open>Size\<close> as a natural number and
  \<^verbatim>\<open>std::vector<Real>\<close> as a list. Rounding is not modelled.
\<close>

record VanillaLocalVolModel =
  T_m :: real
  S0_m :: real
  sigmaATM_m :: real
  Sp_m :: "real list"
  Sm_m :: "real list"
  Mp_m :: "real list"
  Mm_m :: "real list"
  straddleATM_m :: real
  sigma0_m :: real
  sigmaP_m :: "real list"
  sigmaM_m :: "real list"
  Xp_m :: "real list"
  Xm_m :: "real list"
  mu_m :: real
  alpha_m :: real
  nu_m :: real
  extrapolationStdevs_m :: real
  maxCalibrationIters_m :: nat
  onlyForwardCalibrationIters_m :: nat
  sigma0Tol_m :: real
  S0Tol_m :: real
  adjustATM_m :: bool
  useInitialMu_m :: bool
  initialMu_m :: real
  enableLogging_m :: bool
  logging_m :: "string list"

subsection \<open>Bounds of integration\<close>

text \<open>
  \<^verbatim>\<open>inline Real lowerBoundX() const { return -extrapolationStdevs_ * sqrt(T_) + mu_; }\<close>
  \<^verbatim>\<open>inline Real upperBoundX() const { return  extrapolationStdevs_ * sqrt(T_) + mu_; }\<close>

  The header's comment: "determine the lower and upper bounds for integration".
  The expiry of a constructed model is positive (spec, section 3), so \<open>sqrt\<close> is
  the square root the code takes.
\<close>

definition lowerBoundX :: "VanillaLocalVolModel \<Rightarrow> real" where
  "lowerBoundX m = - extrapolationStdevs_m m * sqrt (T_m m) + mu_m m"

definition upperBoundX :: "VanillaLocalVolModel \<Rightarrow> real" where
  "upperBoundX m = extrapolationStdevs_m m * sqrt (T_m m) + mu_m m"

subsection \<open>The two constructors\<close>

text \<open>
  The class declares two public constructors (lines 107--120 and 123--137 of the
  header). A declaration is a list of parameters in their order; each parameter has
  its name, its declared type and, when the declaration gives one, its default
  argument.
\<close>

text \<open>
  The declared types \<^verbatim>\<open>Time\<close>, \<^verbatim>\<open>Real\<close>,
  \<^verbatim>\<open>const std::vector<Real>&\<close>, \<^verbatim>\<open>Size\<close> and \<^verbatim>\<open>bool\<close>,
  and the values of an argument.
\<close>

datatype cpp_type = TimeT | RealT | RealVectorT | SizeT | BoolT

datatype cpp_value = RealV real | VectorV "real list" | SizeV nat | BoolV bool

type_synonym parameter = "string \<times> cpp_type \<times> cpp_value option"

text \<open>
  \<^verbatim>\<open>VanillaLocalVolModel(Time T, Real S0, Real sigmaATM,
      const std::vector<Real>& Sp, const std::vector<Real>& Sm,
      const std::vector<Real>& Mp, const std::vector<Real>& Mm,
      Size maxCalibrationIters = 5, Size onlyForwardCalibrationIters = 0,
      bool adjustATMFlag = true, bool enableLogging = false,
      bool useInitialMu = false, Real initialMu = 0.0);\<close>
\<close>

definition VanillaLocalVolModel_SGrid :: "parameter list" where
  "VanillaLocalVolModel_SGrid =
    [(''T'', TimeT, None),
     (''S0'', RealT, None),
     (''sigmaATM'', RealT, None),
     (''Sp'', RealVectorT, None),
     (''Sm'', RealVectorT, None),
     (''Mp'', RealVectorT, None),
     (''Mm'', RealVectorT, None),
     (''maxCalibrationIters'', SizeT, Some (SizeV 5)),
     (''onlyForwardCalibrationIters'', SizeT, Some (SizeV 0)),
     (''adjustATMFlag'', BoolT, Some (BoolV True)),
     (''enableLogging'', BoolT, Some (BoolV False)),
     (''useInitialMu'', BoolT, Some (BoolV False)),
     (''initialMu'', RealT, Some (RealV 0))]"

text \<open>
  \<^verbatim>\<open>VanillaLocalVolModel(Time T, Real S0, Real sigmaATM, Real sigma0,
      const std::vector<Real>& Xp, const std::vector<Real>& Xm,
      const std::vector<Real>& Mp, const std::vector<Real>& Mm,
      Size maxCalibrationIters = 5, Size onlyForwardCalibrationIters = 0,
      bool adjustATMFlag = true, bool enableLogging = false,
      bool useInitialMu = false, Real initialMu = 0.0);\<close>
\<close>

definition VanillaLocalVolModel_XGrid :: "parameter list" where
  "VanillaLocalVolModel_XGrid =
    [(''T'', TimeT, None),
     (''S0'', RealT, None),
     (''sigmaATM'', RealT, None),
     (''sigma0'', RealT, None),
     (''Xp'', RealVectorT, None),
     (''Xm'', RealVectorT, None),
     (''Mp'', RealVectorT, None),
     (''Mm'', RealVectorT, None),
     (''maxCalibrationIters'', SizeT, Some (SizeV 5)),
     (''onlyForwardCalibrationIters'', SizeT, Some (SizeV 0)),
     (''adjustATMFlag'', BoolT, Some (BoolV True)),
     (''enableLogging'', BoolT, Some (BoolV False)),
     (''useInitialMu'', BoolT, Some (BoolV False)),
     (''initialMu'', RealT, Some (RealV 0))]"

definition constructors :: "parameter list list" where
  "constructors = [VanillaLocalVolModel_SGrid, VanillaLocalVolModel_XGrid]"

text \<open>
  A parameter with no default argument is mandatory: a call has to pass it. The
  parameters with a default are the controls for calibration.
\<close>

definition mandatory :: "parameter list \<Rightarrow> (string \<times> cpp_type) list" where
  "mandatory ps = map (\<lambda>(n, t, d). (n, t)) (filter (\<lambda>(n, t, d). d = None) ps)"

definition controls :: "parameter list \<Rightarrow> (string \<times> cpp_value option) list" where
  "controls ps = map (\<lambda>(n, t, d). (n, d)) (filter (\<lambda>(n, t, d). d \<noteq> None) ps)"

text \<open>
  A call passes its arguments by position. An argument has to be of the parameter's
  type (\<^verbatim>\<open>Time\<close> and \<^verbatim>\<open>Real\<close> both take a real number); the parameters
  the call does not reach take their default arguments, and the call is ill-formed
  (\<open>None\<close>) when one of them has none or when arguments are left over.
\<close>

fun accepts :: "cpp_type \<Rightarrow> cpp_value \<Rightarrow> bool" where
  "accepts TimeT (RealV r) = True"
| "accepts RealT (RealV r) = True"
| "accepts RealVectorT (VectorV v) = True"
| "accepts SizeT (SizeV n) = True"
| "accepts BoolT (BoolV b) = True"
| "accepts t v = False"

fun bindArguments :: "parameter list \<Rightarrow> cpp_value list \<Rightarrow> (string \<times> cpp_value) list option" where
  "bindArguments [] [] = Some []"
| "bindArguments [] (a # as) = None"
| "bindArguments ((n, t, d) # ps) [] =
     (case d of
        None \<Rightarrow> None
      | Some v \<Rightarrow> map_option (\<lambda>bs. (n, v) # bs) (bindArguments ps []))"
| "bindArguments ((n, t, d) # ps) (a # as) =
     (if accepts t a then map_option (\<lambda>bs. (n, a) # bs) (bindArguments ps as) else None)"

subsection \<open>Segment functions\<close>

text \<open>
  The header declares three private member functions on the individual segments of
  a wing, each with the comment that it is unsafe (the index is not checked):
  \<^verbatim>\<open>Real localVol(bool isRightWing, Size k, Real S);\<close>
  \<^verbatim>\<open>Real underlyingS(bool isRightWing, Size k, Real x);\<close>
  \<^verbatim>\<open>Real underlyingX(bool isRightWing, Size k, Real S);\<close>
  Their bodies are in the implementation file of the class, which is not among the
  sources.

  The arrays of a wing, by the flag \<^verbatim>\<open>isRightWing\<close>.
\<close>

definition wingS :: "VanillaLocalVolModel \<Rightarrow> bool \<Rightarrow> real list" where
  "wingS m isRightWing = (if isRightWing then Sp_m m else Sm_m m)"

definition wingX :: "VanillaLocalVolModel \<Rightarrow> bool \<Rightarrow> real list" where
  "wingX m isRightWing = (if isRightWing then Xp_m m else Xm_m m)"

definition wingSigma :: "VanillaLocalVolModel \<Rightarrow> bool \<Rightarrow> real list" where
  "wingSigma m isRightWing = (if isRightWing then sigmaP_m m else sigmaM_m m)"

definition wingM :: "VanillaLocalVolModel \<Rightarrow> bool \<Rightarrow> real list" where
  "wingM m isRightWing = (if isRightWing then Mp_m m else Mm_m m)"

text \<open>
  Modelled from the spec: the knot a segment starts from, which the missing bodies
  of the segment functions read. Spec, section 4.3: each wing starts "at the center
  knot (coord=0 or mu, level=S0, vol=sigma0)" and steps "outward one knot at a
  time". Segment \<open>0\<close> starts from the centre, segment \<open>k > 0\<close> from knot
  \<open>k - 1\<close> of the wing. The centre has coordinate \<open>0\<close>, as the header's comments
  on the members say (\<^verbatim>\<open>X_i with X_i > 0\<close>, \<^verbatim>\<open>X_-i with X_-i < 0\<close>).
\<close>

definition startS :: "VanillaLocalVolModel \<Rightarrow> bool \<Rightarrow> nat \<Rightarrow> real" where
  "startS m isRightWing k = (if k = 0 then S0_m m else wingS m isRightWing ! (k - 1))"

definition startX :: "VanillaLocalVolModel \<Rightarrow> bool \<Rightarrow> nat \<Rightarrow> real" where
  "startX m isRightWing k = (if k = 0 then 0 else wingX m isRightWing ! (k - 1))"

definition startSigma :: "VanillaLocalVolModel \<Rightarrow> bool \<Rightarrow> nat \<Rightarrow> real" where
  "startSigma m isRightWing k =
     (if k = 0 then sigma0_m m else wingSigma m isRightWing ! (k - 1))"

text \<open>
  Modelled from the spec: the missing body of
  \<^verbatim>\<open>localVol(bool isRightWing, Size k, Real S)\<close>. Spec, section 4.2: "value of
  the linear-in-level model on segment k". The slope of segment \<open>k\<close> is entry \<open>k\<close>
  of \<^verbatim>\<open>Mp_\<close> or \<^verbatim>\<open>Mm_\<close> (the header: \<^verbatim>\<open>slope on intervall [S_i-1, S_i)\<close>),
  and the line passes through the volatility of the knot the segment starts from.
\<close>

definition localVol :: "VanillaLocalVolModel \<Rightarrow> bool \<Rightarrow> nat \<Rightarrow> real \<Rightarrow> real" where
  "localVol m isRightWing k S =
     startSigma m isRightWing k + wingM m isRightWing ! k * (S - startS m isRightWing k)"

text \<open>
  Modelled from the spec: the missing body of
  \<^verbatim>\<open>underlyingS(bool isRightWing, Size k, Real x)\<close>. Spec, section 4.2:
  "closed-form solution of the first-order ODE d(level)/d(coord) = localVol(level)
  under a piecewise-linear vol assumption (slope\<noteq>0 gives an exponential-affine
  closed form; slope\<approx>0 degenerates to the linear/Gaussian case)". The solution
  through the knot the segment starts from; the slope is compared with zero exactly
  (the class has no tolerance for slopes).
\<close>

definition underlyingS :: "VanillaLocalVolModel \<Rightarrow> bool \<Rightarrow> nat \<Rightarrow> real \<Rightarrow> real" where
  "underlyingS m isRightWing k x =
     (let x0 = startX m isRightWing k;
          sigma0 = startSigma m isRightWing k;
          M = wingM m isRightWing ! k;
          deltaS = (if M = 0 then sigma0 * (x - x0)
                    else sigma0 / M * (exp (M * (x - x0)) - 1))
      in startS m isRightWing k + deltaS)"

text \<open>
  Modelled from the spec: the missing body of
  \<^verbatim>\<open>underlyingX(bool isRightWing, Size k, Real S)\<close>. Spec, section 4.2: the
  coordinate of a level by the same closed form, solved for the coordinate ("no
  iterative root-finding"): the logarithm of the ratio of the local volatility at the
  level to the volatility at the start, over the slope; for slope zero, the distance
  in the level over the volatility.
\<close>

definition underlyingX :: "VanillaLocalVolModel \<Rightarrow> bool \<Rightarrow> nat \<Rightarrow> real \<Rightarrow> real" where
  "underlyingX m isRightWing k S =
     (let sigma0 = startSigma m isRightWing k;
          M = wingM m isRightWing ! k;
          deltaX = (if M = 0 then (S - startS m isRightWing k) / sigma0
                    else ln (localVol m isRightWing k S / sigma0) / M)
      in startX m isRightWing k + deltaX)"

text \<open>
  Modelled from the spec: what the missing body of \<^verbatim>\<open>updateLocalVol\<close> leaves
  in the arrays for a knot it accepts. Spec, section 4.3: the solver uses "the
  segment's slope to compute the next knot's coordinate, level, and vol in closed
  form" and rejects the step "if the resulting vol would be non-positive"; section
  3: "local vol is strictly positive everywhere inside the extrapolation bound".
  So knot \<open>k\<close> of a wing is calibrated when the index is within the four arrays of
  the wing, the segment starts from a positive volatility, the knot's volatility is
  the segment's local volatility at the knot's level and is positive, and the knot's
  coordinate is the segment's coordinate of that level.
\<close>

definition calibratedKnot :: "VanillaLocalVolModel \<Rightarrow> bool \<Rightarrow> nat \<Rightarrow> bool" where
  "calibratedKnot m isRightWing k \<longleftrightarrow>
     k < length (wingS m isRightWing) \<and> k < length (wingM m isRightWing) \<and>
     k < length (wingX m isRightWing) \<and> k < length (wingSigma m isRightWing) \<and>
     0 < startSigma m isRightWing k \<and>
     wingSigma m isRightWing ! k = localVol m isRightWing k (wingS m isRightWing ! k) \<and>
     0 < wingSigma m isRightWing ! k \<and>
     wingX m isRightWing ! k = underlyingX m isRightWing k (wingS m isRightWing ! k)"

text \<open>
  A model state with two knots on the right wing (slopes \<open>1/10\<close> and \<open>0\<close>) and
  one on the left (slope \<open>1/10\<close>), around the forward \<open>100\<close> with central
  volatility \<open>20\<close>.
\<close>

definition exampleModel :: VanillaLocalVolModel where
  "exampleModel =
    \<lparr>T_m = 1, S0_m = 100, sigmaATM_m = 20,
     Sp_m = [110, 120], Sm_m = [90], Mp_m = [1/10, 0], Mm_m = [1/10],
     straddleATM_m = 16, sigma0_m = 20,
     sigmaP_m = [21, 21], sigmaM_m = [19],
     Xp_m = [10 * ln (21/20), 10 * ln (21/20) + 10/21], Xm_m = [10 * ln (19/20)],
     mu_m = 0, alpha_m = 1, nu_m = 0,
     extrapolationStdevs_m = 10, maxCalibrationIters_m = 5,
     onlyForwardCalibrationIters_m = 0, sigma0Tol_m = 1/10^6, S0Tol_m = 1/10^6,
     adjustATM_m = True, useInitialMu_m = False, initialMu_m = 0,
     enableLogging_m = False, logging_m = []\<rparr>"


section \<open>Properties\<close>

subsection \<open>The bounds of integration are centred at the forward shift\<close>

text \<open>
  Claim C10. The bounds in the coordinate are exactly
  \<open>mu - extrapolationStdevs * sqrt T\<close> and \<open>mu + extrapolationStdevs * sqrt T\<close>:
  their midpoint is \<open>mu\<close>, not zero, and a change of \<open>mu\<close> by \<open>d\<close> moves both
  bounds by \<open>d\<close>.
\<close>

theorem bounds_centred_at_mu:
  "lowerBoundX m = mu_m m - extrapolationStdevs_m m * sqrt (T_m m) \<and>
   upperBoundX m = mu_m m + extrapolationStdevs_m m * sqrt (T_m m) \<and>
   (lowerBoundX m + upperBoundX m) / 2 = mu_m m \<and>
   lowerBoundX (m\<lparr>mu_m := mu_m m + d\<rparr>) = lowerBoundX m + d \<and>
   upperBoundX (m\<lparr>mu_m := mu_m m + d\<rparr>) = upperBoundX m + d"
  by (simp add: lowerBoundX_def upperBoundX_def)

lemma bounds_example:
  "lowerBoundX (exampleModel\<lparr>mu_m := 3\<rparr>) = -7 \<and> upperBoundX (exampleModel\<lparr>mu_m := 3\<rparr>) = 13"
  by (simp add: lowerBoundX_def upperBoundX_def exampleModel_def)

subsection \<open>What the two constructors require\<close>

text \<open>
  Claim C7, as the spec states it, lets both forms be called with \<open>T\<close>, \<open>S0\<close>,
  \<open>sigmaATM\<close>, the two grids and the two slope arrays alone. The form on
  coordinate grids cannot: its fourth parameter \<open>sigma0\<close> has no default argument,
  so such a call is ill-formed for it.
\<close>

theorem XGrid_requires_sigma0:
  "bindArguments VanillaLocalVolModel_XGrid
     [RealV 1, RealV 100, RealV (1/5),
      VectorV [1/2], VectorV [-1/2], VectorV [0], VectorV [0]] = None \<and>
   (''sigma0'', RealT) \<in> set (mandatory VanillaLocalVolModel_XGrid) \<and>
   (''sigma0'', RealT) \<notin> set (mandatory VanillaLocalVolModel_SGrid)"
  by (simp add: VanillaLocalVolModel_SGrid_def VanillaLocalVolModel_XGrid_def mandatory_def)

text \<open>
  Claim C7, amended. There are exactly two constructors. The one on level grids
  requires \<open>T\<close>, \<open>S0\<close>, \<open>sigmaATM\<close>, \<open>Sp\<close>, \<open>Sm\<close>, \<open>Mp\<close>, \<open>Mm\<close>
  and nothing more; the one on coordinate grids requires \<open>T\<close>, \<open>S0\<close>,
  \<open>sigmaATM\<close>, the central volatility \<open>sigma0\<close>, \<open>Xp\<close>, \<open>Xm\<close>, \<open>Mp\<close>,
  \<open>Mm\<close> and nothing more. Both have the same controls for calibration with the
  same defaults: at most 5 iterations, 0 iterations on the forward only, the
  adjustment switched on, logging switched off, no initial \<open>mu\<close> and \<open>0.0\<close> for
  it. A call that passes the required arguments only gets exactly these defaults.
\<close>

theorem constructors_required_and_defaults:
  "constructors = [VanillaLocalVolModel_SGrid, VanillaLocalVolModel_XGrid] \<and>
   mandatory VanillaLocalVolModel_SGrid =
     [(''T'', TimeT), (''S0'', RealT), (''sigmaATM'', RealT), (''Sp'', RealVectorT),
      (''Sm'', RealVectorT), (''Mp'', RealVectorT), (''Mm'', RealVectorT)] \<and>
   mandatory VanillaLocalVolModel_XGrid =
     [(''T'', TimeT), (''S0'', RealT), (''sigmaATM'', RealT), (''sigma0'', RealT),
      (''Xp'', RealVectorT), (''Xm'', RealVectorT), (''Mp'', RealVectorT),
      (''Mm'', RealVectorT)] \<and>
   controls VanillaLocalVolModel_SGrid =
     [(''maxCalibrationIters'', Some (SizeV 5)),
      (''onlyForwardCalibrationIters'', Some (SizeV 0)),
      (''adjustATMFlag'', Some (BoolV True)),
      (''enableLogging'', Some (BoolV False)),
      (''useInitialMu'', Some (BoolV False)),
      (''initialMu'', Some (RealV 0))] \<and>
   controls VanillaLocalVolModel_XGrid = controls VanillaLocalVolModel_SGrid \<and>
   bindArguments VanillaLocalVolModel_SGrid
     [RealV T, RealV S0, RealV sigmaATM, VectorV Sp, VectorV Sm, VectorV Mp, VectorV Mm] =
     Some [(''T'', RealV T), (''S0'', RealV S0), (''sigmaATM'', RealV sigmaATM),
           (''Sp'', VectorV Sp), (''Sm'', VectorV Sm), (''Mp'', VectorV Mp),
           (''Mm'', VectorV Mm),
           (''maxCalibrationIters'', SizeV 5), (''onlyForwardCalibrationIters'', SizeV 0),
           (''adjustATMFlag'', BoolV True), (''enableLogging'', BoolV False),
           (''useInitialMu'', BoolV False), (''initialMu'', RealV 0)] \<and>
   bindArguments VanillaLocalVolModel_XGrid
     [RealV T, RealV S0, RealV sigmaATM, RealV sigma0,
      VectorV Xp, VectorV Xm, VectorV Mp, VectorV Mm] =
     Some [(''T'', RealV T), (''S0'', RealV S0), (''sigmaATM'', RealV sigmaATM),
           (''sigma0'', RealV sigma0),
           (''Xp'', VectorV Xp), (''Xm'', VectorV Xm), (''Mp'', VectorV Mp),
           (''Mm'', VectorV Mm),
           (''maxCalibrationIters'', SizeV 5), (''onlyForwardCalibrationIters'', SizeV 0),
           (''adjustATMFlag'', BoolV True), (''enableLogging'', BoolV False),
           (''useInitialMu'', BoolV False), (''initialMu'', RealV 0)]"
  by (simp add: constructors_def mandatory_def controls_def
      VanillaLocalVolModel_SGrid_def VanillaLocalVolModel_XGrid_def)

text \<open>
  A call has to pass every mandatory parameter, whatever the declaration: with
  fewer arguments than mandatory parameters nothing is bound.
\<close>

lemma bindArguments_Some_length:
  "bindArguments ps as = Some bs \<Longrightarrow>
     length (mandatory ps) \<le> length as \<and> length as \<le> length ps \<and> length bs = length ps"
proof (induction ps as arbitrary: bs rule: bindArguments.induct)
  case 1
  then show ?case by (simp add: mandatory_def)
next
  case (2 a as)
  then show ?case by simp
next
  case (3 n t d ps)
  then show ?case
    by (cases d) (auto simp: mandatory_def)
next
  case (4 n t d ps a as)
  then show ?case
    by (cases d) (auto simp: mandatory_def split: if_splits)
qed

subsection \<open>Level and coordinate on a segment\<close>

text \<open>
  The level as a function of the coordinate is the solution the spec asks for: it
  passes through the knot the segment starts from, and its derivative is the local
  volatility at the level it has reached.
\<close>

lemma localVol_start: "localVol m w k (startS m w k) = startSigma m w k"
  by (simp add: localVol_def)

lemma underlyingS_start: "underlyingS m w k (startX m w k) = startS m w k"
  by (simp add: underlyingS_def Let_def)

lemma underlyingX_start:
  "startSigma m w k \<noteq> 0 \<Longrightarrow> underlyingX m w k (startS m w k) = startX m w k"
  by (simp add: underlyingX_def localVol_def Let_def)

lemma localVol_underlyingS:
  "wingM m w ! k \<noteq> 0 \<Longrightarrow>
   localVol m w k (underlyingS m w k x) =
     startSigma m w k * exp (wingM m w ! k * (x - startX m w k))"
  by (simp add: localVol_def underlyingS_def Let_def algebra_simps)

lemma underlyingS_ode:
  "(underlyingS m w k has_real_derivative localVol m w k (underlyingS m w k x)) (at x)"
proof (cases "wingM m w ! k = 0")
  case True
  then show ?thesis
    unfolding underlyingS_def localVol_def Let_def
    by (auto intro!: derivative_eq_intros)
next
  case False
  then show ?thesis
    unfolding underlyingS_def localVol_def Let_def
    by (auto intro!: derivative_eq_intros simp: field_simps)
qed

text \<open>
  The two maps are inverse to each other wherever the volatility the segment
  starts from and the local volatility at the level are positive.
\<close>

lemma underlyingX_underlyingS:
  assumes "startSigma m w k \<noteq> 0"
  shows "underlyingX m w k (underlyingS m w k x) = x"
proof (cases "wingM m w ! k = 0")
  case True
  with assms show ?thesis
    by (simp add: underlyingX_def underlyingS_def Let_def)
next
  case False
  with assms show ?thesis
    by (simp add: underlyingX_def Let_def localVol_underlyingS)
qed

lemma underlyingS_underlyingX:
  assumes "0 < startSigma m w k" and "0 < localVol m w k S"
  shows "underlyingS m w k (underlyingX m w k S) = S"
proof (cases "wingM m w ! k = 0")
  case True
  with assms show ?thesis
    by (simp add: underlyingX_def underlyingS_def Let_def)
next
  case False
  from assms have "0 < localVol m w k S / startSigma m w k"
    by simp
  then have "exp (ln (localVol m w k S / startSigma m w k)) =
      localVol m w k S / startSigma m w k"
    by simp
  with False assms show ?thesis
    by (simp add: underlyingX_def underlyingS_def Let_def localVol_def field_simps)
qed

lemma exampleModel_knots:
  "calibratedKnot exampleModel True 0"
  "calibratedKnot exampleModel True 1"
  "calibratedKnot exampleModel False 0"
  by (simp_all add: calibratedKnot_def wingS_def wingM_def wingX_def wingSigma_def
      startSigma_def startS_def startX_def localVol_def underlyingX_def Let_def
      exampleModel_def)

text \<open>
  Claim C6. At every calibrated knot, the coordinate of the knot's level is mapped
  back to that level, and the level of the knot's coordinate is mapped back to that
  coordinate. Both maps are the closed forms of the segment (no search for a root);
  over the real numbers the two round trips are exact, so they hold within every
  tolerance.
\<close>

theorem knot_round_trip:
  assumes "calibratedKnot m isRightWing k"
  shows "underlyingS m isRightWing k (underlyingX m isRightWing k (wingS m isRightWing ! k))
           = wingS m isRightWing ! k \<and>
         underlyingX m isRightWing k (underlyingS m isRightWing k (wingX m isRightWing ! k))
           = wingX m isRightWing ! k"
proof
  from assms have pos: "0 < startSigma m isRightWing k"
    and vol: "0 < localVol m isRightWing k (wingS m isRightWing ! k)"
    by (simp_all add: calibratedKnot_def)
  then show "underlyingS m isRightWing k (underlyingX m isRightWing k (wingS m isRightWing ! k))
      = wingS m isRightWing ! k"
    by (rule underlyingS_underlyingX)
  from pos show "underlyingX m isRightWing k
      (underlyingS m isRightWing k (wingX m isRightWing ! k)) = wingX m isRightWing ! k"
    by (simp add: underlyingX_underlyingS)
qed

theorem knot_round_trip_witness:
  "calibratedKnot exampleModel True 1 \<and>
   underlyingS exampleModel True 1 (underlyingX exampleModel True 1 120) = 120 \<and>
   underlyingX exampleModel True 1
     (underlyingS exampleModel True 1 (10 * ln (21/20) + 10/21)) = 10 * ln (21/20) + 10/21 \<and>
   calibratedKnot exampleModel False 0 \<and>
   underlyingS exampleModel False 0 (underlyingX exampleModel False 0 90) = 90 \<and>
   underlyingX exampleModel False 0
     (underlyingS exampleModel False 0 (10 * ln (19/20))) = 10 * ln (19/20)"
  using knot_round_trip [OF exampleModel_knots(2)] knot_round_trip [OF exampleModel_knots(3)]
    exampleModel_knots
  by (simp add: wingS_def wingX_def exampleModel_def)

end
